theory Spec2Isabelle
  imports Main
begin

section \<open>Values, errors and the query object\<close>

text \<open>
  Decoded JSON and the Python values built from it. Dictionaries keep their insertion
  order (an association list, read with \<open>map_of\<close>). \<open>JObj c d\<close> is an instance of the
  model class named \<open>c\<close> built from the data \<open>d\<close>; it is neither a \<open>list\<close> nor a \<open>dict\<close>.
  JSON numbers are integers here.
\<close>

datatype json =
    JNull
  | JBool bool
  | JInt int
  | JStr string
  | JList "json list"
  | JDict "(string \<times> json) list"
  | JObj string json

text \<open>A component of \<open>data_key_list\<close>: a key string, or a list of key strings.\<close>

datatype key = K string | KK "string list"

text \<open>
  The messages are the f-strings of the source, kept with the values they interpolate:
  the request-limit text of \<open>get_response\<close>, the text \<open>raise_for_status\<close> builds from a
  status code, and the three texts given to \<open>YahooFantasySportsDataNotFound\<close>.
\<close>

datatype message =
    RateLimitMsg
  | StatusMsg int
  | ErrorPayloadMsg string json
  | NoEnvelopeMsg string
  | NoDataMsg "key list"

text \<open>
  The exceptions the modelled code raises. \<open>DataNotFound m p u\<close> is
  \<open>YahooFantasySportsDataNotFound(m, payload=p, url=u)\<close>; an omitted \<open>payload\<close> is \<open>None\<close>.
\<close>

datatype error =
    HTTPError message
  | DataNotFound message "key list option" string
  | KeyError string
  | IndexError
  | AttributeError
  | TypeError
  | JSONDecodeError

text \<open>What the session's \<open>get\<close> hands back: \<open>body = None\<close> is a body that does not decode.\<close>

record response =
  status_code :: int
  body :: "json option"
  resp_url :: string

text \<open>
  The effects of the methods that the outside can see, in order. \<open>Fetch u\<close> is the
  session's \<open>get\<close> at the URL \<open>u\<close>, \<open>Authenticate\<close> a call of \<open>_authenticate\<close>, \<open>Sleep b\<close>
  is \<open>time.sleep(0.3 * b)\<close> with the integer \<open>b\<close> kept in place of the floating-point product,
  and \<open>RetrievalFailures fs\<close> is the warning in which \<open>get_league_players\<close> logs its list of
  failure records, each with the index, the URL and the message of a player that could
  not be retrieved.
\<close>

datatype event =
    Fetch string
  | Authenticate
  | Sleep int
  | RetrievalFailures "(int \<times> string \<times> message) list"

text \<open>
  The attributes of \<open>YahooFantasySportsQuery\<close> that the modelled methods read or write,
  with the log of effects and the number of fetches made so far.
\<close>

record yquery =
  offline :: bool
  all_output_as_json_str :: bool
  retries :: int
  backoff :: int
  league_key :: "string option"
  league_id :: string
  game_id :: "int option"
  game_code :: string
  executed_queries :: "(string \<times> int) list"
  events :: "event list"
  fetches :: nat

text \<open>The transport: the response to the \<open>n\<close>-th fetch of the session, at a URL.\<close>

type_synonym transport = "nat \<Rightarrow> string \<Rightarrow> response"

fun truthy :: "json \<Rightarrow> bool" where
  "truthy JNull = False"
| "truthy (JBool b) = b"
| "truthy (JInt i) = (i \<noteq> 0)"
| "truthy (JStr s) = (s \<noteq> [])"
| "truthy (JList xs) = (xs \<noteq> [])"
| "truthy (JDict kvs) = (kvs \<noteq> [])"
| "truthy (JObj c d) = True"

text \<open>\<open>d.get(k)\<close>: only a dictionary has the method.\<close>

fun py_get :: "json \<Rightarrow> string \<Rightarrow> error + json" where
  "py_get (JDict kvs) k = Inr (case map_of kvs k of None \<Rightarrow> JNull | Some v \<Rightarrow> v)"
| "py_get _ k = Inl AttributeError"

text \<open>\<open>Response.raise_for_status\<close> raises for the client and server error codes.\<close>

definition raises_for_status :: "int \<Rightarrow> bool" where
  "raises_for_status status = (400 \<le> status \<and> status < 600)"

text \<open>\<open>_authenticate\<close> works on the OAuth session, which is outside the model: its call
  is recorded.\<close>

definition authenticate :: "yquery \<Rightarrow> yquery" where
  "authenticate s = s\<lparr>events := events s @ [Authenticate]\<rparr>"

definition fantasy_content_data_field :: string where
  "fantasy_content_data_field = ''fantasy_content''"

section \<open>get_response\<close>

function get_response :: "transport \<Rightarrow> yquery \<Rightarrow> string \<Rightarrow> (error + response) \<times> yquery" where
  "get_response env s url =
    (let response = env (fetches s) url;
         s1 = s\<lparr>events := events s @ [Fetch url], fetches := Suc (fetches s)\<rparr>;
         status = status_code response
     in if status = 999 then (Inl (HTTPError RateLimitMsg), s1)
        else
          let s2 = (if status = 401 then authenticate s1 else s1) in
          if body response = None \<and> raises_for_status status
          then (Inl (HTTPError (StatusMsg status)), s2)
          else
            let response_json = (case body response of None \<Rightarrow> JDict [] | Some j \<Rightarrow> j) in
            (case (if status div 100 \<noteq> 2 then py_get response_json ''error'' else Inr JNull) of
               Inl e \<Rightarrow> (Inl e, s2)
             | Inr err \<Rightarrow>
                 if truthy err
                 then (case py_get err ''description'' of
                         Inl e \<Rightarrow> (Inl e, s2)
                       | Inr d \<Rightarrow>
                           (Inl (DataNotFound (ErrorPayloadMsg (resp_url response) d) None
                                   (resp_url response)), s2))
                 else
                   let (r, s3) =
                     (if raises_for_status status
                      then (if retries s2 > 0
                            then get_response env
                                   (s2\<lparr>retries := retries s2 - 1, backoff := backoff s2 + 1,
                                        events := events s2 @ [Sleep (backoff s2 + 1)]\<rparr>) url
                            else (Inl (HTTPError (StatusMsg status)), s2))
                      else (Inr response, s2))
                   in (case r of
                         Inl e \<Rightarrow> (Inl e, s3)
                       | Inr response' \<Rightarrow>
                           (case py_get response_json fantasy_content_data_field of
                              Inl e \<Rightarrow> (Inl e, s3)
                            | Inr raw_response_data \<Rightarrow>
                                if truthy raw_response_data then (Inr response', s3)
                                else (Inl (DataNotFound (NoEnvelopeMsg (resp_url response')) None
                                             (resp_url response')), s3)))))"
  by pat_completeness auto
termination
  by (relation "measure (\<lambda>(env, s, url). nat (retries s))") (auto simp: authenticate_def split: if_splits)

declare get_response.simps [simp del]





text \<open>
  The last lines of \<open>get_response\<close>: the caller's own \<open>response_json\<close> is searched for the
  envelope field, whatever response the handler left in \<open>response\<close>.
\<close>

definition envelope_check ::
  "json \<Rightarrow> (error + response) \<times> yquery \<Rightarrow> (error + response) \<times> yquery" where
  "envelope_check response_json rs =
     (case rs of
        (Inl e, s3) \<Rightarrow> (Inl e, s3)
      | (Inr response', s3) \<Rightarrow>
          (case py_get response_json fantasy_content_data_field of
             Inl e \<Rightarrow> (Inl e, s3)
           | Inr raw \<Rightarrow>
               if truthy raw then (Inr response', s3)
               else (Inl (DataNotFound (NoEnvelopeMsg (resp_url response')) None
                            (resp_url response')), s3)))"

text \<open>
  One pass through the body of \<open>get_response\<close>, up to the point where it either is done
  or calls itself: a device for the proofs, related to \<open>get_response\<close> by
  \<open>get_response_unfold\<close> below.
\<close>

datatype outcome = Done "(error + response) \<times> yquery" | Retry json yquery

definition attempt :: "transport \<Rightarrow> yquery \<Rightarrow> string \<Rightarrow> outcome" where
  "attempt env s url =
    (let response = env (fetches s) url;
         status = status_code response;
         s1 = s\<lparr>events := events s @ [Fetch url], fetches := Suc (fetches s)\<rparr>;
         s2 = s\<lparr>events := events s @ Fetch url # (if status = 401 then [Authenticate] else []),
                 fetches := Suc (fetches s)\<rparr>
     in if status = 999 then Done (Inl (HTTPError RateLimitMsg), s1)
        else if body response = None \<and> raises_for_status status
        then Done (Inl (HTTPError (StatusMsg status)), s2)
        else
          let response_json = (case body response of None \<Rightarrow> JDict [] | Some j \<Rightarrow> j) in
          (case (if status div 100 \<noteq> 2 then py_get response_json ''error'' else Inr JNull) of
             Inl e \<Rightarrow> Done (Inl e, s2)
           | Inr err \<Rightarrow>
               if truthy err
               then (case py_get err ''description'' of
                       Inl e \<Rightarrow> Done (Inl e, s2)
                     | Inr d \<Rightarrow> Done (Inl (DataNotFound (ErrorPayloadMsg (resp_url response) d)
                                          None (resp_url response)), s2))
               else if raises_for_status status
               then (if retries s > 0
                     then Retry response_json
                            (s2\<lparr>retries := retries s - 1, backoff := backoff s + 1,
                                 events := events s2 @ [Sleep (backoff s + 1)]\<rparr>)
                     else Done (Inl (HTTPError (StatusMsg status)), s2))
               else Done (envelope_check response_json (Inr response, s2))))"

section \<open>query\<close>

text \<open>
  The functions \<open>reformat_json_list\<close>, \<open>unpack_data\<close> and \<open>jsonify_data\<close> of \<open>yfpy.utils\<close> and
  the classes of \<open>yfpy.models\<close> are used by \<open>query\<close> but are not part of the source at hand:
  they are parameters of the model. \<open>obj_method\<close> gives the methods \<open>get\<close>, \<open>__getitem__\<close>
  and \<open>__getattribute__\<close> of a model object at a string argument, \<open>obj_iter\<close> its
  iteration, \<open>obj_str\<close> the text that an f-string shows for a value that is neither a
  string nor an integer.
\<close>

record helpers =
  reformat_json_list :: "json \<Rightarrow> error + json"
  unpack_data :: "json \<Rightarrow> error + json"
  jsonify_data :: "json \<Rightarrow> string"
  obj_method :: "string \<Rightarrow> json \<Rightarrow> string \<Rightarrow> error + json"
  obj_iter :: "json \<Rightarrow> error + json list"
  obj_str :: "json \<Rightarrow> string"

fun is_list :: "json \<Rightarrow> bool" where
  "is_list (JList xs) = True"
| "is_list _ = False"

fun is_dict :: "json \<Rightarrow> bool" where
  "is_dict (JDict kvs) = True"
| "is_dict _ = False"

text \<open>\<open>x[k]\<close> for a string \<open>k\<close>: a dictionary raises \<open>KeyError\<close> on a missing key; lists,
  strings, numbers and \<open>None\<close> raise \<open>TypeError\<close>.\<close>

fun py_subscript :: "helpers \<Rightarrow> json \<Rightarrow> string \<Rightarrow> error + json" where
  "py_subscript h (JDict kvs) k = (case map_of kvs k of None \<Rightarrow> Inl (KeyError k) | Some v \<Rightarrow> Inr v)"
| "py_subscript h (JObj c d) k = obj_method h ''__getitem__'' (JObj c d) k"
| "py_subscript h _ k = Inl TypeError"

text \<open>\<open>ks[i]\<close> on a list of key strings.\<close>

definition py_index :: "'a list \<Rightarrow> nat \<Rightarrow> error + 'a" where
  "py_index xs i = (if i < length xs then Inr (xs ! i) else Inl IndexError)"

text \<open>
  The two-element list that \<open>query\<close> builds for a component that is a list of keys, read
  from \<open>d\<close>; Python evaluates \<open>ks[0]\<close>, \<open>d[ks[0]]\<close>, \<open>ks[1]\<close>, \<open>d[ks[1]]\<close> in this order.
\<close>

definition dual_key :: "helpers \<Rightarrow> json \<Rightarrow> string list \<Rightarrow> error + json" where
  "dual_key h d ks =
     (case py_index ks 0 of Inl e \<Rightarrow> Inl e | Inr k0 \<Rightarrow>
      case py_subscript h d k0 of Inl e \<Rightarrow> Inl e | Inr v0 \<Rightarrow>
      case py_index ks 1 of Inl e \<Rightarrow> Inl e | Inr k1 \<Rightarrow>
      case py_subscript h d k1 of Inl e \<Rightarrow> Inl e | Inr v1 \<Rightarrow>
        Inr (JList [JDict [(k0, v0)], JDict [(k1, v1)]]))"

text \<open>One round of the loop over \<open>data_key_list\<close>.\<close>

definition drill_step :: "helpers \<Rightarrow> json \<Rightarrow> key \<Rightarrow> error + json" where
  "drill_step h raw_response_data k =
     (if is_list raw_response_data
      then (case k of
              KK ks \<Rightarrow>
                (case reformat_json_list h raw_response_data of
                   Inl e \<Rightarrow> Inl e
                 | Inr reformatted \<Rightarrow> dual_key h reformatted ks)
            | K key \<Rightarrow>
                (case reformat_json_list h raw_response_data of
                   Inl e \<Rightarrow> Inl e
                 | Inr reformatted \<Rightarrow> py_subscript h reformatted key))
      else (case k of
              KK ks \<Rightarrow> dual_key h raw_response_data ks
            | K key \<Rightarrow> py_get raw_response_data key))"

fun drill :: "helpers \<Rightarrow> json \<Rightarrow> key list \<Rightarrow> error + json" where
  "drill h raw_response_data [] = Inr raw_response_data"
| "drill h raw_response_data (k # ks) =
     (case drill_step h raw_response_data k of
        Inl e \<Rightarrow> Inl e
      | Inr raw' \<Rightarrow> drill h raw' ks)"

text \<open>A list comprehension whose element expression may raise.\<close>

fun traverse :: "('a \<Rightarrow> error + 'b) \<Rightarrow> 'a list \<Rightarrow> error + 'b list" where
  "traverse f [] = Inr []"
| "traverse f (x # xs) =
     (case f x of
        Inl e \<Rightarrow> Inl e
      | Inr y \<Rightarrow> (case traverse f xs of Inl e \<Rightarrow> Inl e | Inr ys \<Rightarrow> Inr (y # ys)))"

text \<open>Iteration, as \<open>sorted\<close> needs it: a string yields its characters, a dictionary its keys.\<close>

fun py_iter :: "helpers \<Rightarrow> json \<Rightarrow> error + json list" where
  "py_iter h (JList xs) = Inr xs"
| "py_iter h (JStr s) = Inr (map (\<lambda>c. JStr [c]) s)"
| "py_iter h (JDict kvs) = Inr (map (\<lambda>kv. JStr (fst kv)) kvs)"
| "py_iter h (JObj c d) = obj_iter h (JObj c d)"
| "py_iter h _ = Inl TypeError"

text \<open>\<open>sorted(query_data, key=sort_function)\<close>, guarded as in \<open>query\<close>; the sort is stable.\<close>

definition sort_data :: "helpers \<Rightarrow> (json \<Rightarrow> 'k::linorder) option \<Rightarrow> json \<Rightarrow> error + json" where
  "sort_data h sort_function query_data =
     (case sort_function of
        None \<Rightarrow> Inr query_data
      | Some f \<Rightarrow>
          if is_dict query_data then Inr query_data
          else (case py_iter h query_data of
                  Inl e \<Rightarrow> Inl e
                | Inr xs \<Rightarrow> Inr (JList (sort_key f xs))))"

definition endswith_s :: "string \<Rightarrow> bool" where
  "endswith_s k = (k \<noteq> [] \<and> last k = CHR ''s'')"

text \<open>
  The flattening of lists of single-key dictionaries. \<open>data_key_list[-1]\<close> raises
  \<open>IndexError\<close> on an empty list, and a list of keys has no \<open>endswith\<close>.
\<close>

definition flatten :: "helpers \<Rightarrow> key list \<Rightarrow> json \<Rightarrow> error + json" where
  "flatten h data_key_list query_data =
     (case query_data of
        JList xs \<Rightarrow>
          (if data_key_list = [] then Inl IndexError
           else (case last data_key_list of
                   KK ks \<Rightarrow> Inl AttributeError
                 | K last_data_key \<Rightarrow>
                     if endswith_s last_data_key
                     then (case traverse (\<lambda>el. py_subscript h el (butlast last_data_key)) xs of
                             Inl e \<Rightarrow> Inl e
                           | Inr ys \<Rightarrow> Inr (JList ys))
                     else Inr query_data))
      | _ \<Rightarrow> Inr query_data)"

text \<open>
  \<open>query\<close>. An entry of \<open>executed_queries\<close> is kept as the URL and the status code of the
  response. In offline mode the method logs an error and falls off its end: it returns
  \<open>None\<close>.
\<close>

definition query ::
  "helpers \<Rightarrow> transport \<Rightarrow> yquery \<Rightarrow> string \<Rightarrow> key list \<Rightarrow> (json \<Rightarrow> json) option \<Rightarrow>
     (json \<Rightarrow> 'k::linorder) option \<Rightarrow> (error + json) \<times> yquery" where
  "query h env s url data_key_list data_type_class sort_function =
    (if \<not> offline s
     then
       (case get_response env s url of
          (Inl e, s1) \<Rightarrow> (Inl e, s1)
        | (Inr response, s1) \<Rightarrow>
            (case body response of
               None \<Rightarrow> (Inl JSONDecodeError, s1)
             | Some j \<Rightarrow>
            (case py_get j fantasy_content_data_field of
               Inl e \<Rightarrow> (Inl e, s1)
             | Inr raw0 \<Rightarrow>
            (case drill h raw0 data_key_list of
               Inl e \<Rightarrow> (Inl e, s1)
             | Inr raw_response_data \<Rightarrow>
                 if \<not> truthy raw_response_data
                 then (Inl (DataNotFound (NoDataMsg data_key_list) (Some data_key_list)
                              (resp_url response)), s1)
                 else
                   (case unpack_data h raw_response_data of
                      Inl e \<Rightarrow> (Inl e, s1)
                    | Inr unpacked \<Rightarrow>
                        let s2 = s1\<lparr>executed_queries := executed_queries s1 @
                                      [(resp_url response, status_code response)]\<rparr>;
                            query_data = (case data_type_class of
                                            None \<Rightarrow> unpacked
                                          | Some c \<Rightarrow> c unpacked)
                        in (case sort_data h sort_function query_data of
                              Inl e \<Rightarrow> (Inl e, s2)
                            | Inr sorted_data \<Rightarrow>
                                (case flatten h data_key_list sorted_data of
                                   Inl e \<Rightarrow> (Inl e, s2)
                                 | Inr flat \<Rightarrow>
                                     (Inr (if all_output_as_json_str s2
                                           then JStr (jsonify_data h flat)
                                           else flat), s2))))))))
     else (Inr JNull, s))"



section \<open>The methods built on query\<close>

text \<open>What an f-string shows for a value.\<close>

fun str_nat :: "nat \<Rightarrow> string" where
  "str_nat n =
     (if n < 10 then [char_of (48 + n)]
      else str_nat (n div 10) @ [char_of (48 + n mod 10)])"

declare str_nat.simps [simp del]

definition str_int :: "int \<Rightarrow> string" where
  "str_int i = (if i < 0 then CHR ''-'' # str_nat (nat (- i)) else str_nat (nat i))"

fun py_str :: "helpers \<Rightarrow> json \<Rightarrow> string" where
  "py_str h (JStr s) = s"
| "py_str h (JInt i) = str_int i"
| "py_str h JNull = ''None''"
| "py_str h (JBool b) = (if b then ''True'' else ''False'')"
| "py_str h v = obj_str h v"

text \<open>\<open>x.get(k)\<close> and \<open>x.name\<close> on the result of a query, which may be a model object.\<close>

fun py_method_get :: "helpers \<Rightarrow> json \<Rightarrow> string \<Rightarrow> error + json" where
  "py_method_get h (JObj c d) k = obj_method h ''get'' (JObj c d) k"
| "py_method_get h v k = py_get v k"

fun py_getattr :: "helpers \<Rightarrow> json \<Rightarrow> string \<Rightarrow> error + json" where
  "py_getattr h (JObj c d) name = obj_method h ''__getattribute__'' (JObj c d) name"
| "py_getattr h v name = Inl AttributeError"

definition base_url :: string where
  "base_url = ''https://fantasysports.yahooapis.com/fantasy/v2/''"

text \<open>No sort function: the type of its keys is immaterial.\<close>

definition no_sort :: "(json \<Rightarrow> nat) option" where
  "no_sort = None"

definition get_game_key_by_season ::
  "helpers \<Rightarrow> transport \<Rightarrow> yquery \<Rightarrow> int \<Rightarrow> (error + json) \<times> yquery" where
  "get_game_key_by_season h env s season =
     (let all_output_as_json = all_output_as_json_str s;
          s0 = (if all_output_as_json_str s then s\<lparr>all_output_as_json_str := False\<rparr> else s)
      in case query h env s0
                (base_url @ ''games;game_codes='' @ game_code s0 @ '';seasons='' @ str_int season)
                [K ''games''] None no_sort of
           (Inl e, s1) \<Rightarrow> (Inl e, s1)
         | (Inr r, s1) \<Rightarrow>
             (case py_method_get h r ''game'' of
                Inl e \<Rightarrow> (Inl e, s1)
              | Inr g \<Rightarrow>
                  (case py_getattr h g ''game_key'' of
                     Inl e \<Rightarrow> (Inl e, s1)
                   | Inr game_key \<Rightarrow>
                       (Inr game_key,
                        if all_output_as_json then s1\<lparr>all_output_as_json_str := True\<rparr>
                        else s1))))"

definition get_current_game_metadata ::
  "helpers \<Rightarrow> transport \<Rightarrow> yquery \<Rightarrow> (error + json) \<times> yquery" where
  "get_current_game_metadata h env s =
     query h env s (base_url @ ''game/'' @ game_code s @ ''/metadata'')
       [K ''game''] (Some (JObj ''Game'')) no_sort"

definition get_game_metadata_by_game_id ::
  "helpers \<Rightarrow> transport \<Rightarrow> yquery \<Rightarrow> int \<Rightarrow> (error + json) \<times> yquery" where
  "get_game_metadata_by_game_id h env s game_id' =
     query h env s (base_url @ ''game/'' @ str_int game_id' @ ''/metadata'')
       [K ''game''] (Some (JObj ''Game'')) no_sort"

text \<open>
  \<open>get_league_key\<close>. \<open>not self.league_key\<close> holds for \<open>None\<close> and for the empty string;
  \<open>season\<close> and \<open>self.game_id\<close> count when they are neither \<open>None\<close> nor zero.
\<close>

definition league_key_of :: "helpers \<Rightarrow> yquery \<Rightarrow> json \<Rightarrow> string" where
  "league_key_of h s game_key = py_str h game_key @ ''.l.'' @ league_id s"

definition get_league_key ::
  "helpers \<Rightarrow> transport \<Rightarrow> yquery \<Rightarrow> int option \<Rightarrow> (error + string) \<times> yquery" where
  "get_league_key h env s season =
     (if league_key s = None \<or> league_key s = Some []
      then
        (if season \<noteq> None \<and> season \<noteq> Some 0
         then (case get_game_key_by_season h env s (the season) of
                 (Inl e, s1) \<Rightarrow> (Inl e, s1)
               | (Inr game_key, s1) \<Rightarrow> (Inr (league_key_of h s1 game_key), s1))
         else if game_id s \<noteq> None \<and> game_id s \<noteq> Some 0
         then (case get_game_metadata_by_game_id h env s (the (game_id s)) of
                 (Inl e, s1) \<Rightarrow> (Inl e, s1)
               | (Inr game, s1) \<Rightarrow>
                   (case py_getattr h game ''game_key'' of
                      Inl e \<Rightarrow> (Inl e, s1)
                    | Inr game_key \<Rightarrow> (Inr (league_key_of h s1 game_key), s1)))
         else (case get_current_game_metadata h env s of
                 (Inl e, s1) \<Rightarrow> (Inl e, s1)
               | (Inr game, s1) \<Rightarrow>
                   (case py_getattr h game ''game_key'' of
                      Inl e \<Rightarrow> (Inl e, s1)
                    | Inr game_key \<Rightarrow> (Inr (league_key_of h s1 game_key), s1))))
      else (Inr (the (league_key s)), s))"

text \<open>
  \<open>get_user_leagues_by_game_key\<close>. Its sort function reads an attribute of a model object
  and is a parameter here.
\<close>

definition user_leagues_url :: "helpers \<Rightarrow> json \<Rightarrow> string" where
  "user_leagues_url h game_key =
     base_url @ ''users;use_login=1/games;game_keys='' @ py_str h game_key @ ''/leagues/''"

definition user_leagues_keys :: "key list" where
  "user_leagues_keys =
     [K ''users'', K ''0'', K ''user'', K ''games'', K ''0'', K ''game'', K ''leagues'']"

definition get_user_leagues_by_game_key ::
  "helpers \<Rightarrow> transport \<Rightarrow> yquery \<Rightarrow> (json \<Rightarrow> 'k::linorder) \<Rightarrow> json \<Rightarrow>
     (error + json) \<times> yquery" where
  "get_user_leagues_by_game_key h env s league_season game_key =
     (case query h env s (user_leagues_url h game_key) user_leagues_keys
             None (Some league_season) of
        (Inl e, s1) \<Rightarrow> (Inl e, s1)
      | (Inr leagues, s1) \<Rightarrow> (Inr (if is_list leagues then leagues else JList [leagues]), s1))"

definition get_team_stats_by_week ::
  "helpers \<Rightarrow> transport \<Rightarrow> yquery \<Rightarrow> json \<Rightarrow> json \<Rightarrow> (error + json) \<times> yquery" where
  "get_team_stats_by_week h env s team_id chosen_week =
     (case get_league_key h env s None of
        (Inl e, s1) \<Rightarrow> (Inl e, s1)
      | (Inr lk, s1) \<Rightarrow>
          query h env s1
            (base_url @ ''team/'' @ lk @ ''.t.'' @ py_str h team_id
               @ ''/stats;type=week;week='' @ py_str h chosen_week)
            [K ''team'', KK [''team_points'', ''team_projected_points'']] None no_sort)"

section \<open>get_league_players\<close>








section \<open>Sample inputs\<close>

text \<open>A query object as the constructor leaves it, and transports with one fixed answer.\<close>

definition sample_query :: yquery where
  "sample_query =
     \<lparr>offline = False, all_output_as_json_str = False, retries = 3, backoff = 0,
      league_key = None, league_id = ''729259'', game_id = None, game_code = ''nfl'',
      executed_queries = [], events = [], fetches = 0\<rparr>"



definition transport_999 :: transport where
  "transport_999 n url = \<lparr>status_code = 999, body = None, resp_url = url\<rparr>"

text \<open>Stand-ins for the helpers, and responses that carry a given payload.\<close>

fun dict_items :: "json \<Rightarrow> (string \<times> json) list" where
  "dict_items (JDict kvs) = kvs"
| "dict_items _ = []"

fun obj_field :: "json \<Rightarrow> string \<Rightarrow> error + json" where
  "obj_field (JObj c (JDict kvs)) k =
     (case map_of kvs k of None \<Rightarrow> Inl AttributeError | Some v \<Rightarrow> Inr v)"
| "obj_field _ k = Inl AttributeError"

definition sample_helpers :: helpers where
  "sample_helpers =
     \<lparr>reformat_json_list =
        (\<lambda>j. case j of JList xs \<Rightarrow> Inr (JDict (concat (map dict_items xs)))
                | _ \<Rightarrow> Inl TypeError),
      unpack_data = Inr,
      jsonify_data = (\<lambda>j. ''json''),
      obj_method = (\<lambda>m obj k. obj_field obj k),
      obj_iter = (\<lambda>obj. Inl TypeError),
      obj_str = (\<lambda>v. ''object'')\<rparr>"

definition ok_response :: "json \<Rightarrow> string \<Rightarrow> response" where
  "ok_response content url =
     \<lparr>status_code = 200, body = Some (JDict [(''fantasy_content'', content)]), resp_url = url\<rparr>"

definition serve :: "json \<Rightarrow> transport" where
  "serve content n url = ok_response content url"

definition game_content :: json where
  "game_content = JDict [(''game'', JDict [(''game_key'', JStr ''331'')])]"

definition wrapped_teams :: "json list" where
  "wrapped_teams =
     [JDict [(''team'', JDict [(''name'', JStr ''A'')])],
      JDict [(''team'', JDict [(''name'', JStr ''B'')])]]"

definition teams_content :: json where
  "teams_content =
     JDict [(''league'',
       JList [JDict [(''league_key'', JStr ''331.l.729259'')],
              JDict [(''teams'', JList wrapped_teams)]])]"



definition one_league_content :: json where
  "one_league_content =
     JDict [(''users'', JDict [(''0'', JDict [(''user'',
       JList [JDict [(''guid'', JStr ''G'')],
              JDict [(''games'', JDict [(''0'', JDict [(''game'',
                JList [JDict [(''game_key'', JStr ''331'')],
                       JDict [(''leagues'',
                         JDict [(''0'', JDict [(''league'',
                                   JList [JDict [(''league_key'', JStr ''331.l.729259'')]])]),
                                (''count'', JInt 1)])]])])])]])])])]"

definition one_league :: json where
  "one_league =
     JDict [(''0'', JDict [(''league'', JList [JDict [(''league_key'', JStr ''331.l.729259'')]])]),
            (''count'', JInt 1)]"

definition by_nothing :: "json \<Rightarrow> nat" where
  "by_nothing x = 0"








section \<open>Properties of get_response\<close>

lemma get_response_unfold:
  "get_response env s url =
     (case attempt env s url of
        Done r \<Rightarrow> r
      | Retry response_json s' \<Rightarrow> envelope_check response_json (get_response env s' url))"
  apply (subst get_response.simps)
  apply (auto simp: attempt_def envelope_check_def Let_def authenticate_def
      split: option.splits sum.splits prod.splits)
  done



lemma snd_envelope_check [simp]: "snd (envelope_check j rs) = snd rs"
  by (auto simp: envelope_check_def split: prod.splits sum.splits)

lemma attempt_rate_limited:
  "status_code (env (fetches s) url) = 999 \<Longrightarrow>
     attempt env s url =
       Done (Inl (HTTPError RateLimitMsg),
             s\<lparr>events := events s @ [Fetch url], fetches := Suc (fetches s)\<rparr>)"
  by (simp add: attempt_def)


text \<open>
  C5. A fetch answered with status 999 makes \<open>get_response\<close> fail at once with the
  request-limit \<open>HTTPError\<close>: the only effect is that one fetch; the retry budget and the
  backoff counter are untouched, nothing sleeps and nothing is fetched again.
\<close>

theorem rate_limited_fails_at_once:
  assumes "status_code (env (fetches s) url) = 999"
  shows "get_response env s url =
           (Inl (HTTPError RateLimitMsg),
            s\<lparr>events := events s @ [Fetch url], fetches := Suc (fetches s)\<rparr>)"
  using assms by (simp add: get_response_unfold attempt_rate_limited)

theorem rate_limited_fails_at_once_witness:
  "status_code (transport_999 (fetches sample_query) ''u'') = 999 \<and>
   get_response transport_999 sample_query ''u'' =
     (Inl (HTTPError RateLimitMsg),
      sample_query\<lparr>events := [Fetch ''u''], fetches := 1\<rparr>) \<and>
   retries (snd (get_response transport_999 sample_query ''u'')) = 3 \<and>
   backoff (snd (get_response transport_999 sample_query ''u'')) = 0"
proof -
  have h: "status_code (transport_999 (fetches sample_query) ''u'') = 999"
    by (simp add: transport_999_def)
  show ?thesis
    using h rate_limited_fails_at_once [of transport_999 sample_query "''u''"]
    by (simp add: sample_query_def)
qed











section \<open>Properties of query\<close>

text \<open>
  C10. With \<open>offline=True\<close> a call of \<open>query\<close> returns \<open>None\<close> whatever its arguments are:
  the query object is unchanged, so nothing is fetched, and no exception is raised.
\<close>

theorem offline_query_returns_none:
  assumes "offline s"
  shows "query h env s url data_key_list data_type_class sort_function = (Inr JNull, s)"
  using assms by (simp add: query_def)

theorem offline_query_returns_none_witness:
  "offline (sample_query\<lparr>offline := True\<rparr>) \<and>
   query sample_helpers (serve game_content) (sample_query\<lparr>offline := True\<rparr>) ''u''
     [K ''game''] None no_sort = (Inr JNull, sample_query\<lparr>offline := True\<rparr>)"
  using offline_query_returns_none [of "sample_query\<lparr>offline := True\<rparr>" sample_helpers
      "serve game_content" "''u''" "[K ''game'']" None no_sort]
  by simp

text \<open>
  C3 at a response without the first key of the path: \<open>get\<close> returns \<open>None\<close> for it, and the
  next round of the loop calls \<open>get\<close> on \<open>None\<close>. The call ends in an \<open>AttributeError\<close>,
  not in \<open>YahooFantasySportsDataNotFound\<close>.
\<close>

theorem missing_middle_key_attribute_error:
  "query sample_helpers (serve game_content) sample_query ''u'' [K ''league'', K ''teams''] None no_sort
     = (Inl AttributeError, sample_query\<lparr>events := [Fetch ''u''], fetches := 1\<rparr>)"
  by (simp add: query_def get_response_unfold attempt_def sample_query_def serve_def game_content_def
      ok_response_def raises_for_status_def envelope_check_def fantasy_content_data_field_def
      drill_step_def)

lemma traverse_wrappers:
  "list_all2 (\<lambda>el v. \<exists>kvs. el = JDict kvs \<and> map_of kvs k = Some v) xs vs \<Longrightarrow>
   traverse (\<lambda>el. py_subscript h el k) xs = Inr vs"
  by (induction xs vs rule: list_all2_induct) auto

text \<open>
  C1. When the data that \<open>query\<close> has extracted, typed and sorted is a list, and the last
  component of the path is a string ending in \<open>s\<close>, the call returns the list of the
  values that the elements hold under that key without its last letter, one for each
  element and in the order of the elements (as a JSON string when
  \<open>all_output_as_json_str\<close> is set).
\<close>

theorem flatten_plural_list:
  assumes "\<not> offline s"
    and "get_response env s url = (Inr response, s1)"
    and "body response = Some j"
    and "py_get j fantasy_content_data_field = Inr raw0"
    and "drill h raw0 (ks @ [K key]) = Inr raw"
    and "truthy raw"
    and "unpack_data h raw = Inr unpacked"
    and "sort_data h sort_function
           (case data_type_class of None \<Rightarrow> unpacked | Some c \<Rightarrow> c unpacked) = Inr (JList xs)"
    and "endswith_s key"
    and "list_all2 (\<lambda>el v. \<exists>kvs. el = JDict kvs \<and> map_of kvs (butlast key) = Some v) xs vs"
  shows "query h env s url (ks @ [K key]) data_type_class sort_function =
           (Inr (if all_output_as_json_str s1 then JStr (jsonify_data h (JList vs)) else JList vs),
            s1\<lparr>executed_queries := executed_queries s1 @
                                      [(resp_url response, status_code response)]\<rparr>)"
  using assms
  by (simp add: query_def Let_def flatten_def traverse_wrappers)


lemma sample_get_response:
  "get_response (serve c) sample_query ''u'' =
     (if truthy c then Inr (ok_response c ''u'')
      else Inl (DataNotFound (NoEnvelopeMsg ''u'') None ''u''),
      sample_query\<lparr>events := [Fetch ''u''], fetches := 1\<rparr>)"
  by (simp add: get_response_unfold attempt_def sample_query_def ok_response_def serve_def
      raises_for_status_def envelope_check_def fantasy_content_data_field_def)

theorem flatten_plural_list_witness:
  "query sample_helpers (serve teams_content) sample_query ''u'' [K ''league'', K ''teams'']
      None no_sort
     = (Inr (JList [JDict [(''name'', JStr ''A'')], JDict [(''name'', JStr ''B'')]]),
        sample_query\<lparr>events := [Fetch ''u''], fetches := 1, executed_queries := [(''u'', 200)]\<rparr>)"
proof -
  let ?s1 = "sample_query\<lparr>events := [Fetch ''u''], fetches := 1\<rparr>"
  have h1: "\<not> offline sample_query" by (simp add: sample_query_def)
  have h2: "get_response (serve teams_content) sample_query ''u''
              = (Inr (ok_response teams_content ''u''), ?s1)"
    by (simp add: sample_get_response) (simp add: teams_content_def)
  have h3: "body (ok_response teams_content ''u'')
              = Some (JDict [(''fantasy_content'', teams_content)])"
    by (simp add: ok_response_def)
  have h4: "py_get (JDict [(''fantasy_content'', teams_content)]) fantasy_content_data_field
              = Inr teams_content"
    by (simp add: fantasy_content_data_field_def)
  have h5: "drill sample_helpers teams_content ([K ''league''] @ [K ''teams''])
              = Inr (JList wrapped_teams)"
    by (simp add: drill_step_def sample_helpers_def teams_content_def)
  have h6: "truthy (JList wrapped_teams)" by (simp add: wrapped_teams_def)
  have h7: "unpack_data sample_helpers (JList wrapped_teams) = Inr (JList wrapped_teams)"
    by (simp add: sample_helpers_def)
  have h8: "sort_data sample_helpers no_sort
              (case None of None \<Rightarrow> JList wrapped_teams | Some c \<Rightarrow> c (JList wrapped_teams))
            = Inr (JList wrapped_teams)"
    by (simp add: sort_data_def no_sort_def)
  have h9: "endswith_s ''teams''" by (simp add: endswith_s_def)
  have h10: "list_all2 (\<lambda>el v. \<exists>kvs. el = JDict kvs \<and> map_of kvs (butlast ''teams'') = Some v)
               wrapped_teams
               [JDict [(''name'', JStr ''A'')], JDict [(''name'', JStr ''B'')]]"
    by (simp add: wrapped_teams_def)
  show ?thesis
    using flatten_plural_list [where h = sample_helpers and env = "serve teams_content"
        and s = sample_query and url = "''u''" and ks = "[K ''league'']" and key = "''teams''"
        and data_type_class = None and sort_function = no_sort, OF h1 h2 h3 h4 h5 h6 h7 h8 h9 h10]
    by (simp add: sample_query_def ok_response_def)
qed





section \<open>Properties of the methods built on query\<close>

text \<open>
  C9. Whatever \<open>get_user_leagues_by_game_key\<close> returns is a list: a list that the query
  yields is returned as it is, anything else is returned as the one element of a list.
  The method returns exactly when its query does, and raises what the query raises.
\<close>

theorem user_leagues_always_list:
  "case get_user_leagues_by_game_key h env s league_season game_key of
     (Inl e, s1) \<Rightarrow>
       query h env s (user_leagues_url h game_key) user_leagues_keys None (Some league_season)
         = (Inl e, s1)
   | (Inr v, s1) \<Rightarrow>
       is_list v \<and>
       (\<exists>leagues.
          query h env s (user_leagues_url h game_key) user_leagues_keys None (Some league_season)
            = (Inr leagues, s1) \<and>
          (is_list leagues \<longrightarrow> v = leagues) \<and>
          (\<not> is_list leagues \<longrightarrow> v = JList [leagues]))"
  by (auto simp: get_user_leagues_by_game_key_def split: prod.splits sum.splits)

lemma get_response_serve:
  "get_response (serve c) s url =
     (if truthy c then Inr (ok_response c url)
      else Inl (DataNotFound (NoEnvelopeMsg url) None url),
      s\<lparr>events := events s @ [Fetch url], fetches := Suc (fetches s)\<rparr>)"
  by (simp add: get_response_unfold attempt_def ok_response_def serve_def
      raises_for_status_def envelope_check_def fantasy_content_data_field_def)

lemma drill_one_league:
  "drill sample_helpers one_league_content user_leagues_keys = Inr one_league"
  by (simp add: one_league_content_def user_leagues_keys_def one_league_def drill_step_def
      sample_helpers_def)

theorem user_leagues_always_list_witness:
  "get_user_leagues_by_game_key sample_helpers (serve one_league_content) sample_query
      by_nothing (JInt 331)
     = (Inr (JList [one_league]),
        sample_query\<lparr>events := [Fetch (user_leagues_url sample_helpers (JInt 331))], fetches := 1,
          executed_queries := [(user_leagues_url sample_helpers (JInt 331), 200)]\<rparr>)"
proof -
  let ?s' = "sample_query\<lparr>events := [Fetch (user_leagues_url sample_helpers (JInt 331))],
               fetches := 1,
               executed_queries := [(user_leagues_url sample_helpers (JInt 331), 200)]\<rparr>"
  have t: "truthy one_league_content" "truthy one_league" "\<not> is_list one_league"
    "is_dict one_league"
    by (simp_all add: one_league_content_def one_league_def)
  have u: "unpack_data sample_helpers = Inr" by (simp add: sample_helpers_def)
  have q: "query sample_helpers (serve one_league_content) sample_query
             (user_leagues_url sample_helpers (JInt 331)) user_leagues_keys None (Some by_nothing)
           = (Inr one_league, ?s')"
    by (simp add: query_def get_response_serve t u drill_one_league ok_response_def
        fantasy_content_data_field_def sort_data_def)
      (simp add: sample_query_def one_league_def flatten_def)
  have g: "get_user_leagues_by_game_key sample_helpers (serve one_league_content) sample_query
             by_nothing (JInt 331) = (Inr (JList [one_league]), ?s')"
    using q t by (simp add: get_user_leagues_by_game_key_def)
  show ?thesis
    using user_leagues_always_list [where h = sample_helpers and env = "serve one_league_content"
      and s = sample_query and league_season = by_nothing and game_key = "JInt 331"] g
    by simp
qed










section \<open>Properties of get_league_players\<close>











end
